theory Spec2Isabelle
  imports Main "HOL-Library.Sublist"
begin

section \<open>Python values used by the two modules\<close>

text \<open>
  The rights provider answers with JSON. Restriction cuts and hierarchy limits arrive
  either as JSON strings or in a structured form, and the code tells them apart with
  \<^verbatim>\<open>isinstance(x, compat.string_type)\<close>, so they are kept as JSON values.
\<close>

datatype json =
    JNull
  | JBool bool
  | JNumber int
  | JString string
  | JArray "json list"
  | JObject "(string \<times> json) list"

text \<open>Every exception of the source is a value; \<open>Inl\<close> carries it.\<close>

datatype error =
    TransportError
  | HTTPError nat
  | DecodeError
  | ConfigurationError string
  | ArgumentError string
  | NameError string
  | KeyError string

text \<open>\<^verbatim>\<open>str.startswith\<close> and \<^verbatim>\<open>str.endswith\<close>.\<close>

definition startswith :: "string \<Rightarrow> string \<Rightarrow> bool" where
  "startswith s p = prefix p s"

definition endswith :: "string \<Rightarrow> string \<Rightarrow> bool" where
  "endswith s p = suffix p s"

text \<open>\<^verbatim>\<open>d.get(k, dflt)\<close> on a dict.\<close>

definition dict_get :: "('k \<rightharpoonup> 'v) \<Rightarrow> 'k \<Rightarrow> 'v \<Rightarrow> 'v" where
  "dict_get d k dflt = (case d k of None \<Rightarrow> dflt | Some v \<Rightarrow> v)"

text \<open>
  Modelled from the spec: \<^verbatim>\<open>ALL_CUBES_WILDCARD\<close> is imported from \<^verbatim>\<open>cubes.auth\<close>,
  which is not among the sources; the spec names the universal wildcard \<^verbatim>\<open>"*"\<close>.
\<close>

definition ALL_CUBES_WILDCARD :: string where
  "ALL_CUBES_WILDCARD = ''*''"

section \<open>\<^verbatim>\<open>custom_auth._DematAccessRight\<close>\<close>

text \<open>
  A hierarchy limit after construction: a string entry has gone through
  \<^verbatim>\<open>string_to_dimension_level\<close> (a dimension, hierarchy, level triple), any other
  entry is kept as it came.
\<close>

datatype limit =
    DimensionLevel string "string option" "string option"
  | RawLimit json

text \<open>
  The object's attributes. The two \<^verbatim>\<open>set\<close>s are lists without duplicates: Python
  leaves the iteration order of a set open, and the code only ever tests membership
  and emptiness, and iterates once to fill the pattern lists, which are read through
  \<^verbatim>\<open>any\<close>.
\<close>

record DematAccessRight =
  cell_restrictions :: "string \<rightharpoonup> json list"
  hierarchy_limits :: "string \<rightharpoonup> limit list"
  allowed_cubes :: "string list"
  denied_cubes :: "string list"
  allowed_cube_suffix :: "string list"
  allowed_cube_prefix :: "string list"
  denied_cube_suffix :: "string list"
  denied_cube_prefix :: "string list"

text \<open>
  One loop of \<^verbatim>\<open>_get_patterns\<close>: the accumulators are the suffix list and the prefix
  list; \<^verbatim>\<open>cube[1:]\<close> is \<open>tl\<close>, \<^verbatim>\<open>cube[:-1]\<close> is \<open>butlast\<close>.
\<close>

fun patterns_loop :: "string list \<Rightarrow> string list \<times> string list \<Rightarrow> string list \<times> string list" where
  "patterns_loop [] (sfxs, pfxs) = (sfxs, pfxs)"
| "patterns_loop (cube # cubes) (sfxs, pfxs) =
     (let sfxs = (if startswith cube ''*'' then sfxs @ [tl cube] else sfxs);
          pfxs = (if endswith cube ''*'' then pfxs @ [butlast cube] else pfxs)
      in patterns_loop cubes (sfxs, pfxs))"

definition get_patterns :: "DematAccessRight \<Rightarrow> DematAccessRight" where
  "get_patterns self =
     (let (allowed_suffix, allowed_prefix) = patterns_loop (allowed_cubes self) ([], []);
          (denied_suffix, denied_prefix) = patterns_loop (denied_cubes self) ([], [])
      in self\<lparr>allowed_cube_suffix := allowed_suffix, allowed_cube_prefix := allowed_prefix,
              denied_cube_suffix := denied_suffix, denied_cube_prefix := denied_prefix\<rparr>)"

text \<open>
  The constructor's loop over \<^verbatim>\<open>hierarchy_limits.items()\<close>. The argument is the JSON
  object's items; the accumulator is the \<^verbatim>\<open>defaultdict(list)\<close>. The parser
  \<^verbatim>\<open>string_to_dimension_level\<close> lives in \<^verbatim>\<open>cubes.model\<close>, outside the sources, and
  is a parameter; when it raises, the constructor raises.
\<close>

fun limits_loop ::
  "(string \<Rightarrow> error + limit) \<Rightarrow> string \<Rightarrow> json list \<Rightarrow> (string \<rightharpoonup> limit list)
     \<Rightarrow> error + (string \<rightharpoonup> limit list)" where
  "limits_loop parse cube [] acc = Inr acc"
| "limits_loop parse cube (l # limits) acc =
     (case (case l of JString s \<Rightarrow> parse s | _ \<Rightarrow> Inr (RawLimit l)) of
        Inl e \<Rightarrow> Inl e
      | Inr l' \<Rightarrow> limits_loop parse cube limits (acc(cube \<mapsto> dict_get acc cube [] @ [l'])))"

fun hierarchy_items_loop ::
  "(string \<Rightarrow> error + limit) \<Rightarrow> (string \<times> json list) list \<Rightarrow> (string \<rightharpoonup> limit list)
     \<Rightarrow> error + (string \<rightharpoonup> limit list)" where
  "hierarchy_items_loop parse [] acc = Inr acc"
| "hierarchy_items_loop parse ((cube, limits) # items) acc =
     (case limits_loop parse cube limits acc of
        Inl e \<Rightarrow> Inl e
      | Inr acc' \<Rightarrow> hierarchy_items_loop parse items acc')"

text \<open>
  \<^verbatim>\<open>set(xs) if xs else set([])\<close>, for an argument that is \<^verbatim>\<open>None\<close> or a list of
  names.
\<close>

definition cube_set :: "string list option \<Rightarrow> string list" where
  "cube_set xs = (case xs of None \<Rightarrow> [] | Some ys \<Rightarrow> remdups ys)"

text \<open>
  \<^verbatim>\<open>_DematAccessRight.__init__\<close>. Each argument is \<open>None\<close> when the caller passes
  \<^verbatim>\<open>None\<close> (a key missing from the response) or leaves it out: every default is
  empty, and an empty value takes the same branch as \<^verbatim>\<open>None\<close>.
\<close>

definition DematAccessRight_init ::
  "(string \<Rightarrow> error + limit) \<Rightarrow> string list option \<Rightarrow> string list option
     \<Rightarrow> (string \<rightharpoonup> json list) option \<Rightarrow> (string \<times> json list) list option
     \<Rightarrow> error + DematAccessRight" where
  "DematAccessRight_init parse allowed denied restrictions limits =
     (case (case limits of None \<Rightarrow> Inr Map.empty
                         | Some items \<Rightarrow> hierarchy_items_loop parse items Map.empty) of
        Inl e \<Rightarrow> Inl e
      | Inr hl \<Rightarrow>
          Inr (get_patterns
            \<lparr>cell_restrictions = (case restrictions of None \<Rightarrow> Map.empty | Some r \<Rightarrow> r),
             hierarchy_limits = hl,
             allowed_cubes = cube_set allowed,
             denied_cubes = cube_set denied,
             allowed_cube_suffix = [], allowed_cube_prefix = [],
             denied_cube_suffix = [], denied_cube_prefix = []\<rparr>))"

text \<open>
  The value of the local \<^verbatim>\<open>allow\<close> of \<^verbatim>\<open>is_allowed\<close> when the second block
  starts, and of \<^verbatim>\<open>deny\<close> when it ends. Both blocks are the same code over the
  allow lists and the deny lists, so one function takes the three lists.
\<close>

definition match_block :: "string list \<Rightarrow> string list \<Rightarrow> string list \<Rightarrow> string \<Rightarrow> bool" where
  "match_block cubes pfxs sfxs nm =
     (let m = False in
      if cubes \<noteq> [] then
        (let m = (if nm \<in> set cubes \<or> ALL_CUBES_WILDCARD \<in> set cubes then True else m);
             m = (if \<not> m \<and> pfxs \<noteq> [] then list_ex (\<lambda>p. startswith nm p) pfxs else m);
             m = (if \<not> m \<and> sfxs \<noteq> [] then list_ex (\<lambda>p. endswith nm p) sfxs else m)
         in m)
      else m)"

definition allow_match :: "DematAccessRight \<Rightarrow> string \<Rightarrow> bool" where
  "allow_match self nm =
     match_block (allowed_cubes self) (allowed_cube_prefix self) (allowed_cube_suffix self) nm"

definition deny_match :: "DematAccessRight \<Rightarrow> string \<Rightarrow> bool" where
  "deny_match self nm =
     match_block (denied_cubes self) (denied_cube_prefix self) (denied_cube_suffix self) nm"

definition is_allowed :: "DematAccessRight \<Rightarrow> string \<Rightarrow> bool \<Rightarrow> bool" where
  "is_allowed self nm allow_after_denied =
     (let allow = allow_match self nm;
          deny = deny_match self nm
      in if allow_after_denied then allow \<or> \<not> deny else allow \<and> \<not> deny)"

section \<open>Cubes, cuts and cells\<close>

text \<open>
  Modelled from the spec: \<^verbatim>\<open>cubes.cells\<close> and \<^verbatim>\<open>cubes.model\<close> are not among the
  sources. A cube is a named dataset, and the code reads \<^verbatim>\<open>cube.name\<close> only. A cut
  constrains one dimension; the code reads \<^verbatim>\<open>cut.dimension.info\<close> and writes
  \<^verbatim>\<open>cut.hidden\<close>. A cell is an ordered sequence of cuts scoped to one cube, a cell
  built without cuts has none, and \<^verbatim>\<open>&\<close> gives a new cell whose cuts are the
  concatenation of both operands' cuts. The \<^verbatim>\<open>info\<close> dict is given by its items.
\<close>

record Cube =
  cube_name :: string

record Dimension =
  dim_name :: string
  info :: "(string \<times> json) list"

record Cut =
  dimension :: Dimension
  path :: "string list"
  hidden :: bool

record Cell =
  cell_cube :: Cube
  cell_cuts :: "Cut list"

definition Cell_init :: "Cube \<Rightarrow> Cut list \<Rightarrow> Cell" where
  "Cell_init cube cuts = \<lparr>cell_cube = cube, cell_cuts = cuts\<rparr>"

definition cell_and :: "Cell \<Rightarrow> Cell \<Rightarrow> Cell" where
  "cell_and a b = Cell_init (cell_cube a) (cell_cuts a @ cell_cuts b)"

section \<open>\<^verbatim>\<open>custom_auth.DematAuthorizer\<close>\<close>

text \<open>The fields of the provider's JSON object that the code reads with \<^verbatim>\<open>data.get\<close>.\<close>

record rights_data =
  data_allowed_cubes :: "string list option"
  data_denied_cubes :: "string list option"
  data_cell_restrictions :: "(string \<rightharpoonup> json list) option"
  data_hierarchy_limits :: "(string \<times> json list) list option"

text \<open>
  What the authorizer calls and the sources do not hold: the HTTP request with its
  JSON decoding (\<^verbatim>\<open>json.load(reader(opener.open(url)))\<close>, given the headers and the
  URL), and the three parsers of \<^verbatim>\<open>cubes.cells\<close> and \<^verbatim>\<open>cubes.model\<close>. Each may
  raise.
\<close>

record env =
  open_json :: "(string \<times> string) list \<Rightarrow> string \<Rightarrow> error + rights_data"
  cut_from_string :: "string \<Rightarrow> Cube \<Rightarrow> error + Cut"
  cut_from_dict :: "json \<Rightarrow> error + Cut"
  string_to_dimension_level :: "string \<Rightarrow> error + limit"

record DematAuthorizer =
  url :: string
  authorize_method :: string
  restricted_cell_method :: string
  hierarchy_limits_method :: string
  allow_after_denied :: bool

text \<open>
  \<^verbatim>\<open>DematAuthorizer.__init__\<close>; \<open>None\<close> for \<^verbatim>\<open>url\<close> or \<^verbatim>\<open>order\<close> is the
  default \<^verbatim>\<open>None\<close>, and an empty string is as false as \<^verbatim>\<open>None\<close>.
\<close>

definition DematAuthorizer_init ::
  "string option \<Rightarrow> string \<Rightarrow> string \<Rightarrow> string \<Rightarrow> string option \<Rightarrow> error + DematAuthorizer" where
  "DematAuthorizer_init url_arg authorize_m restricted_cell_m hierarchy_limits_m order_arg =
     (case url_arg of
        None \<Rightarrow> Inl (ConfigurationError ''Missing authorizer url'')
      | Some u \<Rightarrow>
          if u = [] then Inl (ConfigurationError ''Missing authorizer url'')
          else
            (let ord = (case order_arg of None \<Rightarrow> ''deny_allow''
                                       | Some v \<Rightarrow> if v = [] then ''deny_allow'' else v);
                 self = \<lparr>url = u, authorize_method = authorize_m,
                         restricted_cell_method = restricted_cell_m,
                         hierarchy_limits_method = hierarchy_limits_m,
                         allow_after_denied = False\<rparr>
             in if ord = ''allow_deny'' then Inr (self\<lparr>allow_after_denied := False\<rparr>)
                else if ord = ''deny_allow'' then Inr (self\<lparr>allow_after_denied := True\<rparr>)
                else Inl (ConfigurationError (''Unknown allow/deny order: '' @ ord))))"

text \<open>\<^verbatim>\<open>_rightRequest\<close>; \<^verbatim>\<open>if cube:\<close> is false for \<^verbatim>\<open>None\<close> and for an empty name.\<close>

definition rightRequest ::
  "env \<Rightarrow> DematAuthorizer \<Rightarrow> string \<Rightarrow> string \<Rightarrow> string option \<Rightarrow> error + rights_data" where
  "rightRequest env self identity method cube =
     (let addheaders = [(''Authorization'', ''Token '' @ identity)];
          u = url self @ method @ ''/'';
          u = (case cube of None \<Rightarrow> u
                          | Some c \<Rightarrow> if c \<noteq> [] then u @ ''?cube='' @ c else u)
      in open_json env addheaders u)"

text \<open>
  \<^verbatim>\<open>authorize\<close>. The candidates are any objects; \<open>str\<close> is Python's \<^verbatim>\<open>str\<close> on
  them. The bare \<^verbatim>\<open>except:\<close> covers the request and the constructor.
\<close>

definition authorize ::
  "env \<Rightarrow> DematAuthorizer \<Rightarrow> ('c \<Rightarrow> string) \<Rightarrow> string \<Rightarrow> 'c list \<Rightarrow> 'c list" where
  "authorize env self str identity cubes =
     (case rightRequest env self identity (authorize_method self) None of
        Inl e \<Rightarrow> []
      | Inr data \<Rightarrow>
          (case DematAccessRight_init (string_to_dimension_level env)
                  (data_allowed_cubes data) (data_denied_cubes data) None None of
             Inl e \<Rightarrow> []
           | Inr right \<Rightarrow>
               filter (\<lambda>cube. is_allowed right (str cube) (allow_after_denied self)) cubes))"

text \<open>The loop of \<^verbatim>\<open>restricted_cell\<close> over the collected cuts.\<close>

fun restriction_loop :: "env \<Rightarrow> Cube \<Rightarrow> json list \<Rightarrow> Cut list \<Rightarrow> error + Cut list" where
  "restriction_loop env cube [] restriction_cuts = Inr restriction_cuts"
| "restriction_loop env cube (spec # cuts) restriction_cuts =
     (case (case spec of JString s \<Rightarrow> cut_from_string env s cube
                       | _ \<Rightarrow> cut_from_dict env spec) of
        Inl e \<Rightarrow> Inl e
      | Inr c \<Rightarrow> restriction_loop env cube cuts (restriction_cuts @ [c\<lparr>hidden := True\<rparr>]))"

text \<open>
  \<^verbatim>\<open>restricted_cell\<close>. The \<^verbatim>\<open>cell\<close> argument is \<open>None\<close> for \<^verbatim>\<open>None\<close>; a cell
  that is supplied takes the \<^verbatim>\<open>if cell:\<close> branch. \<^verbatim>\<open>cuts += any_cuts\<close> extends the
  list found under the cube's name; when that name is the wildcard itself, both names
  are bound to one list, which is then extended by itself.
\<close>

definition restricted_cell ::
  "env \<Rightarrow> DematAuthorizer \<Rightarrow> string \<Rightarrow> Cube \<Rightarrow> Cell option \<Rightarrow> error + Cell" where
  "restricted_cell env self identity cube cell =
     (case rightRequest env self identity (restricted_cell_method self) (Some (cube_name cube)) of
        Inl e \<Rightarrow> Inl e
      | Inr data \<Rightarrow>
          (case DematAccessRight_init (string_to_dimension_level env)
                  None None (data_cell_restrictions data) None of
             Inl e \<Rightarrow> Inl e
           | Inr right \<Rightarrow>
               (let cuts = dict_get (cell_restrictions right) (cube_name cube) [];
                    any_cuts = dict_get (cell_restrictions right) ALL_CUBES_WILDCARD [];
                    cuts = (if any_cuts \<noteq> [] then cuts @ any_cuts else cuts)
                in case (if cuts \<noteq> []
                         then (case restriction_loop env cube cuts [] of
                                 Inl e \<Rightarrow> Inl e
                               | Inr restriction_cuts \<Rightarrow> Inr (Cell_init cube restriction_cuts))
                         else Inr (Cell_init cube [])) of
                     Inl e \<Rightarrow> Inl e
                   | Inr restriction \<Rightarrow>
                       (case cell of
                          Some c \<Rightarrow> Inr (cell_and c restriction)
                        | None \<Rightarrow> Inr restriction))))"

text \<open>
  \<^verbatim>\<open>hierarchy_limits\<close>. The cube reference is a name: it is what \<^verbatim>\<open>str(cube)\<close>
  and the URL's \<^verbatim>\<open>format\<close> give.
\<close>

definition hierarchy_limits_of ::
  "env \<Rightarrow> DematAuthorizer \<Rightarrow> string \<Rightarrow> string \<Rightarrow> error + limit list" where
  "hierarchy_limits_of env self identity cube =
     (case rightRequest env self identity (hierarchy_limits_method self) (Some cube) of
        Inl e \<Rightarrow> Inl e
      | Inr data \<Rightarrow>
          (case DematAccessRight_init (string_to_dimension_level env)
                  None None None (data_hierarchy_limits data) of
             Inl e \<Rightarrow> Inl e
           | Inr right \<Rightarrow> Inr (dict_get (hierarchy_limits right) cube [])))"

section \<open>\<^verbatim>\<open>sql.utils\<close>: ordering a statement\<close>

text \<open>
  Modelled from the spec: the statement builder is an external library. A statement
  exposes its selected columns, each under a key, and carries an ORDER BY list;
  \<^verbatim>\<open>column.asc()\<close> and \<^verbatim>\<open>column.desc()\<close> give ordering terms, a bare column is
  ordered by the database default, and \<^verbatim>\<open>order_by\<close> sets the ORDER BY list, an
  empty list leaving the statement as it is.
\<close>

datatype Column = Column string

datatype ordering = Plain Column | Asc Column | Desc Column

record Statement =
  stmt_columns :: "Column list"
  stmt_order_by :: "ordering list"

definition column_key :: "Column \<Rightarrow> string" where
  "column_key c = (case c of Column k \<Rightarrow> k)"

definition order_by :: "Statement \<Rightarrow> ordering list \<Rightarrow> Statement" where
  "order_by statement terms =
     (if terms = [] then statement else statement\<lparr>stmt_order_by := terms\<rparr>)"

text \<open>\<^verbatim>\<open>str.lower\<close>, on the ASCII letters.\<close>

definition lower_char :: "char \<Rightarrow> char" where
  "lower_char c =
     (let n = (of_char c :: nat) in if 65 \<le> n \<and> n \<le> 90 then char_of (n + 32) else c)"

definition lower :: "string \<Rightarrow> string" where
  "lower s = map lower_char s"

text \<open>
  \<^verbatim>\<open>order_column\<close>. The module imports no \<^verbatim>\<open>ArgumentError\<close>, so evaluating the
  operand of \<^verbatim>\<open>raise\<close> in the last branch fails on that name.
\<close>

definition order_column :: "Column \<Rightarrow> string option \<Rightarrow> error + ordering" where
  "order_column column direction =
     (case direction of
        None \<Rightarrow> Inr (Plain column)
      | Some d \<Rightarrow>
          if d = [] then Inr (Plain column)
          else if startswith (lower d) ''asc'' then Inr (Asc column)
          else if startswith (lower d) ''desc'' then Inr (Desc column)
          else Inl (NameError ''ArgumentError''))"

text \<open>
  An \<^verbatim>\<open>OrderedDict\<close> is the list of its items: assigning to a key that is present
  replaces the value in place, a new key goes to the end.
\<close>

definition od_set :: "('k \<times> 'v) list \<Rightarrow> 'k \<Rightarrow> 'v \<Rightarrow> ('k \<times> 'v) list" where
  "od_set d k v =
     (if k \<in> fst ` set d then map (\<lambda>(k', v'). if k' = k then (k', v) else (k', v')) d
      else d @ [(k, v)])"

definition od_of_pairs :: "('k \<times> 'v) list \<Rightarrow> ('k \<times> 'v) list" where
  "od_of_pairs kvs = fold (\<lambda>(k, v) d. od_set d k v) kvs []"

text \<open>The loop over the explicit \<^verbatim>\<open>order\<close>; \<^verbatim>\<open>columns[attribute]\<close> raises on a missing key.\<close>

fun explicit_loop ::
  "(string \<times> Column) list \<Rightarrow> (string \<times> string option) list \<Rightarrow> (string \<times> ordering) list
     \<Rightarrow> error + (string \<times> ordering) list" where
  "explicit_loop columns [] final_order = Inr final_order"
| "explicit_loop columns ((attribute, direction) # rest) final_order =
     (case map_of columns attribute of
        None \<Rightarrow> Inl (KeyError attribute)
      | Some c \<Rightarrow>
          (case order_column c direction of
             Inl e \<Rightarrow> Inl e
           | Inr column \<Rightarrow>
               explicit_loop columns rest
                 (if attribute \<notin> fst ` set final_order then od_set final_order attribute column
                  else final_order)))"

text \<open>
  The loop over \<^verbatim>\<open>columns.items()\<close>. The test is
  \<^verbatim>\<open>name in natural_order and name not in order_by\<close>: its second operand is evaluated
  only when the first is true, and \<^verbatim>\<open>order_by\<close> is bound nowhere in the module.
\<close>

definition natural_test :: "(string \<rightharpoonup> string) \<Rightarrow> string \<Rightarrow> error + bool" where
  "natural_test natural_order nm =
     (if nm \<in> dom natural_order then Inl (NameError ''order_by'') else Inr False)"

fun natural_loop ::
  "(string \<times> Column) list \<Rightarrow> (string \<rightharpoonup> string) \<Rightarrow> (string \<times> ordering) list
     \<Rightarrow> error + (string \<times> ordering) list" where
  "natural_loop [] natural_order final_order = Inr final_order"
| "natural_loop ((nm, column) # rest) natural_order final_order =
     (case natural_test natural_order nm of
        Inl e \<Rightarrow> Inl e
      | Inr True \<Rightarrow>
          (case order_column column (natural_order nm) of
             Inl e \<Rightarrow> Inl e
           | Inr t \<Rightarrow> natural_loop rest natural_order (od_set final_order nm t))
      | Inr False \<Rightarrow> natural_loop rest natural_order final_order)"

text \<open>
  \<^verbatim>\<open>order_query\<close>. \<^verbatim>\<open>SPLIT_DIMENSION_NAME\<close> comes from \<^verbatim>\<open>cubes.browser\<close>, outside
  the sources, and is the first parameter. \<^verbatim>\<open>labels\<close> is given by its keys in
  iteration order; \<open>None\<close> is an argument left out, \<^verbatim>\<open>None\<close> or empty.
\<close>

definition order_query ::
  "string \<Rightarrow> Statement \<Rightarrow> (string \<times> string option) list option
     \<Rightarrow> (string \<rightharpoonup> string) option \<Rightarrow> string list option \<Rightarrow> error + Statement" where
  "order_query SPLIT_DIMENSION_NAME statement order_arg natural_order_arg labels_arg =
     (let order = (case order_arg of None \<Rightarrow> [] | Some v \<Rightarrow> v);
          labels = (case labels_arg of None \<Rightarrow> [] | Some v \<Rightarrow> v);
          natural_order = (case natural_order_arg of None \<Rightarrow> Map.empty | Some v \<Rightarrow> v);
          final_order = [];
          columns = od_of_pairs (zip labels (stmt_columns statement));
          final_order =
            (if SPLIT_DIMENSION_NAME \<in> column_key ` set (stmt_columns statement)
             then od_set final_order SPLIT_DIMENSION_NAME (Plain (Column SPLIT_DIMENSION_NAME))
             else final_order)
      in case explicit_loop columns order final_order of
           Inl e \<Rightarrow> Inl e
         | Inr final_order \<Rightarrow>
             (case natural_loop columns natural_order final_order of
                Inl e \<Rightarrow> Inl e
              | Inr final_order \<Rightarrow> Inr (order_by statement (map snd final_order))))"

section \<open>\<^verbatim>\<open>sql.utils\<close>: splitting the permission cuts\<close>

text \<open>\<^verbatim>\<open>cut.dimension.info.get('type', None) == 'Permission'\<close>.\<close>

definition is_permission_cut :: "Cut \<Rightarrow> bool" where
  "is_permission_cut c = (map_of (info (dimension c)) ''type'' = Some (JString ''Permission''))"

text \<open>
  \<^verbatim>\<open>extract_permissions_from_cell\<close>. The argument is \<open>None\<close> for \<^verbatim>\<open>None\<close>;
  \<^verbatim>\<open>cut not in permissions_cell.cuts\<close> is membership by the equality of cuts, taken
  as the equality of their values.
\<close>

definition extract_permissions_from_cell :: "Cell option \<Rightarrow> Cell option \<times> Cell option" where
  "extract_permissions_from_cell cell =
     (let aux_cell = (case cell of None \<Rightarrow> None
                                 | Some c \<Rightarrow> Some (Cell_init (cell_cube c) (cell_cuts c)));
          permissions_cell = None;
          permissions_cuts = (case aux_cell of None \<Rightarrow> []
                                | Some a \<Rightarrow> filter is_permission_cut (cell_cuts a))
      in case aux_cell of
           None \<Rightarrow> (aux_cell, permissions_cell)
         | Some a \<Rightarrow>
             if permissions_cuts \<noteq> [] then
               (let pc = Cell_init (cell_cube a) permissions_cuts;
                    a' = a\<lparr>cell_cuts := filter (\<lambda>c. c \<notin> set (cell_cuts pc)) (cell_cuts a)\<rparr>
                in (Some a', Some pc))
             else (aux_cell, permissions_cell))"

section \<open>Concrete inputs\<close>

text \<open>
  Stand-ins for the external parts, used where a property is evaluated on an example:
  a provider that always gives the same answer, a parser of structured cuts, and
  parsers of strings that reject everything. The parser of structured cuts reads the
  \<^verbatim>\<open>type\<close> key first and fails with a \<^verbatim>\<open>KeyError\<close> when it is missing; it
  accepts a point cut, given by its \<^verbatim>\<open>dimension\<close> and its \<^verbatim>\<open>path\<close>.
\<close>

definition example_parse :: "string \<Rightarrow> error + limit" where
  "example_parse s = Inl (ArgumentError s)"

definition example_cut_from_dict :: "json \<Rightarrow> error + Cut" where
  "example_cut_from_dict spec =
     (case spec of
        JObject items \<Rightarrow>
          (case map_of items ''type'' of
             None \<Rightarrow> Inl (KeyError ''type'')
           | Some t \<Rightarrow>
               if t = JString ''point'' then
                 (case (map_of items ''dimension'', map_of items ''path'') of
                    (Some (JString d), Some (JArray vs)) \<Rightarrow>
                      Inr \<lparr>dimension = \<lparr>dim_name = d, info = []\<rparr>,
                           path = concat (map (\<lambda>v. case v of JString s \<Rightarrow> [s] | _ \<Rightarrow> []) vs),
                           hidden = False\<rparr>
                  | _ \<Rightarrow> Inl (ArgumentError ''Unknown cut''))
               else Inl (ArgumentError ''Unknown cut type''))
      | _ \<Rightarrow> Inl (ArgumentError ''Unknown cut''))"

definition example_env :: "error + rights_data \<Rightarrow> env" where
  "example_env response =
     \<lparr>open_json = (\<lambda>headers u. response),
      cut_from_string = (\<lambda>s cube. Inl (ArgumentError s)),
      cut_from_dict = example_cut_from_dict,
      string_to_dimension_level = example_parse\<rparr>"

definition example_authorizer :: "bool \<Rightarrow> DematAuthorizer" where
  "example_authorizer after_denied =
     \<lparr>url = ''http://demat/api/'', authorize_method = ''authorize'',
      restricted_cell_method = ''restricted-cell'',
      hierarchy_limits_method = ''hierarchy-limits'',
      allow_after_denied = after_denied\<rparr>"

definition no_rights :: rights_data where
  "no_rights = \<lparr>data_allowed_cubes = None, data_denied_cubes = None,
                 data_cell_restrictions = None, data_hierarchy_limits = None\<rparr>"

definition scenario_rights :: rights_data where
  "scenario_rights = \<lparr>data_allowed_cubes = Some [''sales'', ''*_test''],
                       data_denied_cubes = Some [''sales_test''],
                       data_cell_restrictions = None, data_hierarchy_limits = None\<rparr>"

definition wildcard_rights :: rights_data where
  "wildcard_rights =
     \<lparr>data_allowed_cubes = None, data_denied_cubes = None,
      data_cell_restrictions = Some (Map.empty(''*'' \<mapsto>
        [JObject [(''type'', JString ''point''), (''dimension'', JString ''region''),
                  (''path'', JArray [JString ''EU''])]])),
      data_hierarchy_limits = None\<rparr>"

definition sales_cube :: Cube where
  "sales_cube = \<lparr>cube_name = ''sales''\<rparr>"

definition year_cut :: Cut where
  "year_cut = \<lparr>dimension = \<lparr>dim_name = ''year'', info = []\<rparr>,
               path = [''2024''], hidden = False\<rparr>"

definition region_cut :: Cut where
  "region_cut = \<lparr>dimension = \<lparr>dim_name = ''region'', info = []\<rparr>,
                 path = [''EU''], hidden = True\<rparr>"

definition tenant_cut :: Cut where
  "tenant_cut = \<lparr>dimension = \<lparr>dim_name = ''tenant'',
                                info = [(''type'', JString ''Permission'')]\<rparr>,
                 path = [''acme''], hidden = False\<rparr>"

section \<open>The access right\<close>

text \<open>The pattern loop appends, in iteration order, what the two tests select.\<close>

lemma patterns_loop_eq:
  "patterns_loop cubes (sfxs, pfxs) =
     (sfxs @ map tl (filter (\<lambda>c. startswith c ''*'') cubes),
      pfxs @ map butlast (filter (\<lambda>c. endswith c ''*'') cubes))"
  by (induction cubes arbitrary: sfxs pfxs) (simp_all add: Let_def)

text \<open>The guards of a matching block change nothing: it is a plain disjunction.\<close>

lemma match_block_iff:
  "match_block cubes pfxs sfxs nm \<longleftrightarrow>
     cubes \<noteq> [] \<and> (nm \<in> set cubes \<or> ALL_CUBES_WILDCARD \<in> set cubes
       \<or> (\<exists>p \<in> set pfxs. startswith nm p) \<or> (\<exists>s \<in> set sfxs. endswith nm s))"
  by (auto simp: match_block_def Let_def list_ex_iff)

lemma init_fields:
  assumes "DematAccessRight_init parse allowed denied restrictions limits = Inr self"
  shows "allowed_cubes self = cube_set allowed"
    and "denied_cubes self = cube_set denied"
    and "allowed_cube_suffix self = map tl (filter (\<lambda>c. startswith c ''*'') (cube_set allowed))"
    and "allowed_cube_prefix self = map butlast (filter (\<lambda>c. endswith c ''*'') (cube_set allowed))"
    and "denied_cube_suffix self = map tl (filter (\<lambda>c. startswith c ''*'') (cube_set denied))"
    and "denied_cube_prefix self = map butlast (filter (\<lambda>c. endswith c ''*'') (cube_set denied))"
    and "cell_restrictions self = (case restrictions of None \<Rightarrow> Map.empty | Some r \<Rightarrow> r)"
  using assms
  by (auto simp: DematAccessRight_init_def get_patterns_def patterns_loop_eq split: sum.splits)

text \<open>Without hierarchy limits the constructor calls no parser and cannot raise.\<close>

lemma init_no_limits:
  "\<exists>self. DematAccessRight_init parse allowed denied restrictions None = Inr self"
  by (simp add: DematAccessRight_init_def)

text \<open>
  C1. For every access right and every cube name, \<open>is_allowed\<close> follows the truth
  table over the allow match and the deny match: with \<open>allow_after_denied\<close> (the
  order deny_allow) the result is allow match or not deny match, so a name matching
  nothing and a name matching both are allowed; without it (allow_deny) the result is
  allow match and not deny match, so both are denied.
\<close>

theorem is_allowed_truth_table:
  "is_allowed self nm True = (allow_match self nm \<or> \<not> deny_match self nm) \<and>
   is_allowed self nm False = (allow_match self nm \<and> \<not> deny_match self nm)"
  by (simp add: is_allowed_def Let_def)

text \<open>The four rows of the table, each on a name of one access right.\<close>

theorem is_allowed_truth_table_witness:
  "case DematAccessRight_init example_parse (Some [''sales'', ''*_test''])
          (Some [''sales_test'', ''secret'']) None None of
     Inl e \<Rightarrow> False
   | Inr r \<Rightarrow>
       (allow_match r ''sales'' \<and> \<not> deny_match r ''sales''
          \<and> is_allowed r ''sales'' True \<and> is_allowed r ''sales'' False) \<and>
       (\<not> allow_match r ''secret'' \<and> deny_match r ''secret''
          \<and> \<not> is_allowed r ''secret'' True \<and> \<not> is_allowed r ''secret'' False) \<and>
       (\<not> allow_match r ''hr'' \<and> \<not> deny_match r ''hr''
          \<and> is_allowed r ''hr'' True \<and> \<not> is_allowed r ''hr'' False) \<and>
       (allow_match r ''sales_test'' \<and> deny_match r ''sales_test''
          \<and> is_allowed r ''sales_test'' True \<and> \<not> is_allowed r ''sales_test'' False)"
proof -
  obtain r where r: "DematAccessRight_init example_parse (Some [''sales'', ''*_test''])
          (Some [''sales_test'', ''secret'']) None None = Inr r"
    using init_no_limits by blast
  note f = init_fields[OF r]
  have m: "allow_match r ''sales''" "\<not> deny_match r ''sales''"
    "\<not> allow_match r ''secret''" "deny_match r ''secret''"
    "\<not> allow_match r ''hr''" "\<not> deny_match r ''hr''"
    "allow_match r ''sales_test''" "deny_match r ''sales_test''"
    by (simp_all add: allow_match_def deny_match_def match_block_iff f cube_set_def
          startswith_def endswith_def suffix_to_prefix ALL_CUBES_WILDCARD_def)
  show ?thesis
    using is_allowed_truth_table[of r "''sales''"] is_allowed_truth_table[of r "''secret''"]
      is_allowed_truth_table[of r "''hr''"] is_allowed_truth_table[of r "''sales_test''"] m
    by (simp add: r)
qed

text \<open>
  C4. Wildcard admissibility, for an access right as its constructor builds it: with
  \<^verbatim>\<open>allowed_cubes = ["sales*"]\<close> the name \<^verbatim>\<open>sales_eu\<close> allow-matches; with
  \<^verbatim>\<open>["*_eu"]\<close> the name \<^verbatim>\<open>sales_eu\<close> allow-matches and \<^verbatim>\<open>sales_us\<close> does not;
  with \<^verbatim>\<open>"*"\<close> among the allowed cubes every name allow-matches; and the suffix
  lists hold the remainder of every entry that begins with \<^verbatim>\<open>"*"\<close>, the prefix lists
  the front of every entry that ends with \<^verbatim>\<open>"*"\<close>, on the allow side and on the deny
  side.
\<close>

theorem wildcard_admissibility:
  assumes "DematAccessRight_init parse allowed denied restrictions limits = Inr self"
  shows "(allowed = Some [''sales*''] \<longrightarrow> allow_match self ''sales_eu'') \<and>
         (allowed = Some [''*_eu''] \<longrightarrow>
            allow_match self ''sales_eu'' \<and> \<not> allow_match self ''sales_us'') \<and>
         (\<forall>xs. allowed = Some xs \<and> ''*'' \<in> set xs \<longrightarrow> allow_match self nm) \<and>
         allowed_cube_suffix self
           = map tl (filter (\<lambda>c. startswith c ''*'') (allowed_cubes self)) \<and>
         allowed_cube_prefix self
           = map butlast (filter (\<lambda>c. endswith c ''*'') (allowed_cubes self)) \<and>
         denied_cube_suffix self
           = map tl (filter (\<lambda>c. startswith c ''*'') (denied_cubes self)) \<and>
         denied_cube_prefix self
           = map butlast (filter (\<lambda>c. endswith c ''*'') (denied_cubes self))"
proof -
  note f = init_fields[OF assms]
  have a: "allowed = Some [''sales*''] \<longrightarrow> allow_match self ''sales_eu''"
    by (simp add: allow_match_def match_block_iff f cube_set_def startswith_def endswith_def
          suffix_to_prefix)
  have b: "allowed = Some [''*_eu''] \<longrightarrow>
             allow_match self ''sales_eu'' \<and> \<not> allow_match self ''sales_us''"
    by (simp add: allow_match_def match_block_iff f cube_set_def startswith_def endswith_def
          suffix_to_prefix ALL_CUBES_WILDCARD_def)
  have c: "\<forall>xs. allowed = Some xs \<and> ''*'' \<in> set xs \<longrightarrow> allow_match self nm"
    by (auto simp: allow_match_def match_block_iff f cube_set_def ALL_CUBES_WILDCARD_def)
  show ?thesis using a b c by (simp add: f)
qed

theorem wildcard_admissibility_witness:
  "(case DematAccessRight_init example_parse (Some [''sales*'']) None None None of
      Inl e \<Rightarrow> False
    | Inr r \<Rightarrow> allow_match r ''sales_eu'' \<and> allowed_cube_prefix r = [''sales'']
                 \<and> allowed_cube_suffix r = []) \<and>
   (case DematAccessRight_init example_parse (Some [''*_eu'']) None None None of
      Inl e \<Rightarrow> False
    | Inr r \<Rightarrow> allow_match r ''sales_eu'' \<and> \<not> allow_match r ''sales_us''
                 \<and> allowed_cube_suffix r = [''_eu''] \<and> allowed_cube_prefix r = []) \<and>
   (case DematAccessRight_init example_parse (Some [''hr'', ''*'']) (Some [''*x*'']) None None of
      Inl e \<Rightarrow> False
    | Inr r \<Rightarrow> allow_match r ''anything'' \<and> allowed_cube_suffix r = [[]]
                 \<and> allowed_cube_prefix r = [[]] \<and> denied_cube_suffix r = [''x*'']
                 \<and> denied_cube_prefix r = [''*x''])"
proof -
  obtain r1 where r1:
    "DematAccessRight_init example_parse (Some [''sales*'']) None None None = Inr r1"
    using init_no_limits by blast
  obtain r2 where r2:
    "DematAccessRight_init example_parse (Some [''*_eu'']) None None None = Inr r2"
    using init_no_limits by blast
  obtain r3 where r3:
    "DematAccessRight_init example_parse (Some [''hr'', ''*'']) (Some [''*x*'']) None None = Inr r3"
    using init_no_limits by blast
  have c1: "allow_match r1 ''sales_eu'' \<and> allowed_cube_prefix r1 = [''sales'']
              \<and> allowed_cube_suffix r1 = []"
    using wildcard_admissibility[OF r1, of "''x''"]
    by (simp add: init_fields[OF r1] cube_set_def startswith_def endswith_def suffix_to_prefix)
  have c2: "allow_match r2 ''sales_eu'' \<and> \<not> allow_match r2 ''sales_us''
              \<and> allowed_cube_suffix r2 = [''_eu''] \<and> allowed_cube_prefix r2 = []"
    using wildcard_admissibility[OF r2, of "''x''"]
    by (simp add: init_fields[OF r2] cube_set_def startswith_def endswith_def suffix_to_prefix)
  have c3: "allow_match r3 ''anything'' \<and> allowed_cube_suffix r3 = [[]]
              \<and> allowed_cube_prefix r3 = [[]] \<and> denied_cube_suffix r3 = [''x*'']
              \<and> denied_cube_prefix r3 = [''*x'']"
    using wildcard_admissibility[OF r3, of "''anything''"]
    by (simp add: init_fields[OF r3] cube_set_def startswith_def endswith_def suffix_to_prefix)
  show ?thesis using c1 c2 c3 by (simp add: r1 r2 r3)
qed

section \<open>The authorizer\<close>

text \<open>
  C2. When the rights request fails, for whatever reason, \<open>authorize\<close> returns the
  empty list, while \<open>restricted_cell\<close> and \<open>hierarchy_limits\<close> raise the same error
  to their caller.
\<close>

theorem fetch_failure_asymmetry:
  "(rightRequest env self identity (authorize_method self) None = Inl e
      \<longrightarrow> authorize env self str identity cubes = []) \<and>
   (rightRequest env self identity (restricted_cell_method self) (Some (cube_name cube)) = Inl e
      \<longrightarrow> restricted_cell env self identity cube cell = Inl e) \<and>
   (rightRequest env self identity (hierarchy_limits_method self) (Some ref) = Inl e
      \<longrightarrow> hierarchy_limits_of env self identity ref = Inl e)"
  by (simp add: authorize_def restricted_cell_def hierarchy_limits_of_def)

theorem fetch_failure_asymmetry_witness:
  "rightRequest (example_env (Inl DecodeError)) (example_authorizer True) ''token''
      ''authorize'' None = Inl DecodeError \<and>
   rightRequest (example_env (Inl DecodeError)) (example_authorizer True) ''token''
      ''restricted-cell'' (Some ''sales'') = Inl DecodeError \<and>
   rightRequest (example_env (Inl DecodeError)) (example_authorizer True) ''token''
      ''hierarchy-limits'' (Some ''sales'') = Inl DecodeError \<and>
   authorize (example_env (Inl DecodeError)) (example_authorizer True) (\<lambda>c. c) ''token''
      [''sales'', ''hr''] = [] \<and>
   restricted_cell (example_env (Inl DecodeError)) (example_authorizer True) ''token''
      \<lparr>cube_name = ''sales''\<rparr> None = Inl DecodeError \<and>
   hierarchy_limits_of (example_env (Inl DecodeError)) (example_authorizer True) ''token''
      ''sales'' = Inl DecodeError"
  using fetch_failure_asymmetry[of "example_env (Inl DecodeError)" "example_authorizer True"
      "''token''" DecodeError "\<lambda>c. c" "[''sales'', ''hr'']" "\<lparr>cube_name = ''sales''\<rparr>" None "''sales''"]
  by (simp add: rightRequest_def example_env_def example_authorizer_def Let_def)

text \<open>What the constructor makes of the \<^verbatim>\<open>order\<close> option.\<close>

lemma authorizer_order:
  assumes "DematAuthorizer_init url_arg am rm hm order_arg = Inr self"
  shows "allow_after_denied self \<longleftrightarrow> order_arg \<noteq> Some ''allow_deny''"
  using assms
  by (auto simp: DematAuthorizer_init_def Let_def split: option.splits if_splits)

text \<open>
  C3. With \<^verbatim>\<open>allowed_cubes = ["sales", "*_test"]\<close>, \<^verbatim>\<open>denied_cubes = ["sales_test"]\<close>
  and the candidates \<^verbatim>\<open>sales\<close>, \<^verbatim>\<open>hr\<close>, \<^verbatim>\<open>sales_test\<close>, \<^verbatim>\<open>billing_test\<close>: an
  authorizer configured with the order deny_allow returns all four candidates in their
  order, one configured with allow_deny returns \<^verbatim>\<open>sales\<close> and \<^verbatim>\<open>billing_test\<close>.
\<close>

theorem authorize_scenarios:
  assumes "rightRequest env self identity (authorize_method self) None = Inr data"
    and "data_allowed_cubes data = Some [''sales'', ''*_test'']"
    and "data_denied_cubes data = Some [''sales_test'']"
    and "DematAuthorizer_init url_arg am rm hm (Some order_arg) = Inr self"
  shows "(order_arg = ''deny_allow'' \<longrightarrow>
            authorize env self (\<lambda>c. c) identity [''sales'', ''hr'', ''sales_test'', ''billing_test'']
              = [''sales'', ''hr'', ''sales_test'', ''billing_test'']) \<and>
         (order_arg = ''allow_deny'' \<longrightarrow>
            authorize env self (\<lambda>c. c) identity [''sales'', ''hr'', ''sales_test'', ''billing_test'']
              = [''sales'', ''billing_test''])"
proof -
  obtain r where r: "DematAccessRight_init (string_to_dimension_level env)
       (Some [''sales'', ''*_test'']) (Some [''sales_test'']) None None = Inr r"
    using init_no_limits by blast
  note f = init_fields[OF r]
  have m: "allow_match r ''sales''" "\<not> deny_match r ''sales''"
    "\<not> allow_match r ''hr''" "\<not> deny_match r ''hr''"
    "allow_match r ''sales_test''" "deny_match r ''sales_test''"
    "allow_match r ''billing_test''" "\<not> deny_match r ''billing_test''"
    by (simp_all add: allow_match_def deny_match_def match_block_iff f cube_set_def
          startswith_def endswith_def suffix_to_prefix ALL_CUBES_WILDCARD_def)
  have a: "order_arg = ''deny_allow'' \<Longrightarrow> allow_after_denied self"
    using assms(4) by (simp add: authorizer_order)
  have b: "order_arg = ''allow_deny'' \<Longrightarrow> \<not> allow_after_denied self"
    using assms(4) by (simp add: authorizer_order)
  show ?thesis
    using a b m by (auto simp: authorize_def assms(1,2,3) r is_allowed_def Let_def)
qed

theorem authorize_scenarios_witness:
  "(case DematAuthorizer_init (Some ''http://demat/api/'') ''authorize'' ''restricted-cell''
           ''hierarchy-limits'' (Some ''deny_allow'') of
      Inl e \<Rightarrow> False
    | Inr a \<Rightarrow>
        authorize (example_env (Inr scenario_rights)) a (\<lambda>c. c) ''token''
          [''sales'', ''hr'', ''sales_test'', ''billing_test'']
        = [''sales'', ''hr'', ''sales_test'', ''billing_test'']) \<and>
   (case DematAuthorizer_init (Some ''http://demat/api/'') ''authorize'' ''restricted-cell''
           ''hierarchy-limits'' (Some ''allow_deny'') of
      Inl e \<Rightarrow> False
    | Inr a \<Rightarrow>
        authorize (example_env (Inr scenario_rights)) a (\<lambda>c. c) ''token''
          [''sales'', ''hr'', ''sales_test'', ''billing_test'']
        = [''sales'', ''billing_test''])"
proof -
  have i1: "DematAuthorizer_init (Some ''http://demat/api/'') ''authorize'' ''restricted-cell''
           ''hierarchy-limits'' (Some ''deny_allow'') = Inr (example_authorizer True)"
    by (simp add: DematAuthorizer_init_def example_authorizer_def Let_def)
  have i2: "DematAuthorizer_init (Some ''http://demat/api/'') ''authorize'' ''restricted-cell''
           ''hierarchy-limits'' (Some ''allow_deny'') = Inr (example_authorizer False)"
    by (simp add: DematAuthorizer_init_def example_authorizer_def Let_def)
  have q: "rightRequest (example_env (Inr scenario_rights)) (example_authorizer b) ''token''
             (authorize_method (example_authorizer b)) None = Inr scenario_rights" for b
    by (simp add: rightRequest_def example_env_def Let_def)
  have d: "data_allowed_cubes scenario_rights = Some [''sales'', ''*_test'']"
    "data_denied_cubes scenario_rights = Some [''sales_test'']"
    by (simp_all add: scenario_rights_def)
  show ?thesis
    using authorize_scenarios[OF q d i1] authorize_scenarios[OF q d i2]
    by (simp add: i1 i2)
qed

section \<open>Restricted cells\<close>

text \<open>The loop only appends to its accumulator, and what it appends is hidden.\<close>

lemma restriction_loop_hidden:
  "restriction_loop env cube cuts acc = Inr rs
     \<Longrightarrow> \<exists>new. rs = acc @ new \<and> list_all hidden new"
proof (induction cuts arbitrary: acc)
  case Nil
  then show ?case by simp
next
  case (Cons spec cuts)
  from Cons.prems obtain c where
    rec: "restriction_loop env cube cuts (acc @ [c\<lparr>hidden := True\<rparr>]) = Inr rs"
    by (auto split: sum.splits)
  from Cons.IH[OF rec] obtain new where "rs = (acc @ [c\<lparr>hidden := True\<rparr>]) @ new" "list_all hidden new"
    by blast
  then have "rs = acc @ (c\<lparr>hidden := True\<rparr> # new) \<and> list_all hidden (c\<lparr>hidden := True\<rparr> # new)"
    by simp
  then show ?case by blast
qed

lemma restricted_cell_None_hidden:
  assumes "restricted_cell env self identity cube None = Inr r"
  shows "cell_cube r = cube \<and> list_all hidden (cell_cuts r)"
  using assms
  by (auto simp: restricted_cell_def Let_def Cell_init_def
        split: sum.splits if_splits dest: restriction_loop_hidden)

lemma restricted_cell_Some:
  "restricted_cell env self identity cube (Some A) =
     (case restricted_cell env self identity cube None of
        Inl e \<Rightarrow> Inl e
      | Inr r \<Rightarrow> Inr (cell_and A r))"
  by (simp add: restricted_cell_def Let_def split: sum.splits)

text \<open>
  C5, as amended. Every cut that \<open>restricted_cell\<close> builds from the restrictions is
  hidden: without an existing cell every cut of the returned cell is hidden; with an
  existing cell the returned cell's cuts are that cell's cuts, as they are, followed by
  cuts that are all hidden.
\<close>

theorem restriction_cuts_hidden:
  assumes "restricted_cell env self identity cube cell = Inr r"
  shows "case cell of
           None \<Rightarrow> list_all hidden (cell_cuts r)
         | Some A \<Rightarrow> take (length (cell_cuts A)) (cell_cuts r) = cell_cuts A
                      \<and> list_all hidden (drop (length (cell_cuts A)) (cell_cuts r))"
proof (cases cell)
  case None
  with assms show ?thesis using restricted_cell_None_hidden by simp
next
  case (Some A)
  with assms obtain r0 where r0: "restricted_cell env self identity cube None = Inr r0"
    and r: "r = cell_and A r0"
    by (auto simp: restricted_cell_Some split: sum.splits)
  from restricted_cell_None_hidden[OF r0] have "list_all hidden (cell_cuts r0)" by simp
  then show ?thesis using Some r by (simp add: cell_and_def Cell_init_def)
qed

text \<open>The definitions that evaluating \<open>restricted_cell\<close> on an example unfolds.\<close>

lemmas run_defs = restricted_cell_def rightRequest_def example_env_def example_authorizer_def
  DematAccessRight_init_def get_patterns_def cube_set_def dict_get_def ALL_CUBES_WILDCARD_def
  Cell_init_def cell_and_def Let_def example_cut_from_dict_def

text \<open>
  C5 as the claim states it fails: the cuts of an existing cell come back as they are,
  here a cut that is not hidden.
\<close>

theorem all_cuts_hidden_counterexample:
  "restricted_cell (example_env (Inr no_rights)) (example_authorizer True) ''token''
     \<lparr>cube_name = ''sales''\<rparr>
     (Some \<lparr>cell_cube = \<lparr>cube_name = ''sales''\<rparr>,
            cell_cuts = [\<lparr>dimension = \<lparr>dim_name = ''year'', info = []\<rparr>,
                          path = [''2024''], hidden = False\<rparr>]\<rparr>)
   = Inr \<lparr>cell_cube = \<lparr>cube_name = ''sales''\<rparr>,
          cell_cuts = [\<lparr>dimension = \<lparr>dim_name = ''year'', info = []\<rparr>,
                        path = [''2024''], hidden = False\<rparr>]\<rparr>
   \<and> \<not> list_all hidden [\<lparr>dimension = \<lparr>dim_name = ''year'', info = []\<rparr>,
                           path = [''2024''], hidden = False\<rparr>]"
  by (simp add: run_defs no_rights_def)

theorem restriction_cuts_hidden_witness:
  "restricted_cell (example_env (Inr wildcard_rights)) (example_authorizer True) ''token''
     sales_cube (Some \<lparr>cell_cube = sales_cube, cell_cuts = [year_cut]\<rparr>)
   = Inr \<lparr>cell_cube = sales_cube, cell_cuts = [year_cut, region_cut]\<rparr>
   \<and> take (length [year_cut]) [year_cut, region_cut] = [year_cut]
   \<and> list_all hidden (drop (length [year_cut]) [year_cut, region_cut])
   \<and> restricted_cell (example_env (Inr wildcard_rights)) (example_authorizer True) ''token''
        sales_cube None
      = Inr \<lparr>cell_cube = sales_cube, cell_cuts = [region_cut]\<rparr>
   \<and> list_all hidden [region_cut]"
proof -
  have a: "restricted_cell (example_env (Inr wildcard_rights)) (example_authorizer True)
             ''token'' sales_cube (Some \<lparr>cell_cube = sales_cube, cell_cuts = [year_cut]\<rparr>)
           = Inr \<lparr>cell_cube = sales_cube, cell_cuts = [year_cut, region_cut]\<rparr>"
    by (simp add: run_defs wildcard_rights_def sales_cube_def year_cut_def region_cut_def)
  have b: "restricted_cell (example_env (Inr wildcard_rights)) (example_authorizer True)
             ''token'' sales_cube None
           = Inr \<lparr>cell_cube = sales_cube, cell_cuts = [region_cut]\<rparr>"
    by (simp add: run_defs wildcard_rights_def sales_cube_def year_cut_def region_cut_def)
  show ?thesis
    using restriction_cuts_hidden[OF a] restriction_cuts_hidden[OF b] a b by simp
qed

text \<open>
  C6 as the claim states it fails for the cube whose name is the wildcard: the lookup
  under the cube's name and the lookup under the wildcard find the same list, and the
  cell has the cut twice. The provider registers, under the wildcard key only, one
  point cut on \<^verbatim>\<open>region\<close> with the path \<^verbatim>\<open>EU\<close>.
\<close>

theorem wildcard_restriction_counterexample:
  "restricted_cell (example_env (Inr wildcard_rights)) (example_authorizer True) ''token''
     \<lparr>cube_name = ''*''\<rparr> None
   = Inr \<lparr>cell_cube = \<lparr>cube_name = ''*''\<rparr>,
          cell_cuts = [\<lparr>dimension = \<lparr>dim_name = ''region'', info = []\<rparr>,
                        path = [''EU''], hidden = True\<rparr>,
                       \<lparr>dimension = \<lparr>dim_name = ''region'', info = []\<rparr>,
                        path = [''EU''], hidden = True\<rparr>]\<rparr>"
  by (simp add: run_defs wildcard_rights_def)

text \<open>
  C6, as amended. When the provider registers cuts only under the wildcard key, there
  a single entry that is not a string and that the parser of structured cuts accepts,
  then for every cube whose name is not the wildcard \<open>restricted_cell\<close> without an
  existing cell returns a cell for that cube with exactly one cut, the parsed cut marked
  hidden.
\<close>

theorem wildcard_restriction:
  assumes "rightRequest env self identity (restricted_cell_method self) (Some (cube_name cube))
             = Inr data"
    and "data_cell_restrictions data = Some m"
    and "dom m = {''*''}"
    and "m ''*'' = Some [spec]"
    and "\<forall>s. spec \<noteq> JString s"
    and "cut_from_dict env spec = Inr c"
    and "cube_name cube \<noteq> ''*''"
  shows "restricted_cell env self identity cube None
           = Inr \<lparr>cell_cube = cube, cell_cuts = [c\<lparr>hidden := True\<rparr>]\<rparr>"
proof -
  obtain r where r: "DematAccessRight_init (string_to_dimension_level env) None None
                       (data_cell_restrictions data) None = Inr r"
    using init_no_limits by blast
  have cr: "cell_restrictions r = m"
    using init_fields(7)[OF r] assms(2) by simp
  have none: "m (cube_name cube) = None"
    using assms(3,7) by (metis domIff singletonD)
  have loop: "restriction_loop env cube [spec] [] = Inr [c\<lparr>hidden := True\<rparr>]"
    using assms(5,6) by (cases spec) simp_all
  show ?thesis
    using assms(1,4) r cr none loop
    by (simp add: restricted_cell_def Let_def dict_get_def ALL_CUBES_WILDCARD_def Cell_init_def)
qed

theorem wildcard_restriction_witness:
  "restricted_cell (example_env (Inr wildcard_rights)) (example_authorizer True) ''token''
     \<lparr>cube_name = ''sales''\<rparr> None
   = Inr \<lparr>cell_cube = \<lparr>cube_name = ''sales''\<rparr>,
          cell_cuts = [\<lparr>dimension = \<lparr>dim_name = ''region'', info = []\<rparr>,
                        path = [''EU''], hidden = True\<rparr>]\<rparr>"
proof -
  have q: "rightRequest (example_env (Inr wildcard_rights)) (example_authorizer True) ''token''
             (restricted_cell_method (example_authorizer True))
             (Some (cube_name \<lparr>cube_name = ''sales''\<rparr>)) = Inr wildcard_rights"
    by (simp add: rightRequest_def example_env_def Let_def)
  have d: "data_cell_restrictions wildcard_rights = Some (Map.empty(''*'' \<mapsto>
        [JObject [(''type'', JString ''point''), (''dimension'', JString ''region''),
                  (''path'', JArray [JString ''EU''])]]))"
    by (simp add: wildcard_rights_def)
  have p: "cut_from_dict (example_env (Inr wildcard_rights))
             (JObject [(''type'', JString ''point''), (''dimension'', JString ''region''),
                       (''path'', JArray [JString ''EU''])])
           = Inr \<lparr>dimension = \<lparr>dim_name = ''region'', info = []\<rparr>,
                  path = [''EU''], hidden = False\<rparr>"
    by (simp add: example_env_def example_cut_from_dict_def)
  show ?thesis
    using wildcard_restriction[OF q d _ _ _ p] by simp
qed

text \<open>
  C8. For every identity, cube and existing cell \<open>A\<close>, \<open>restricted_cell\<close> with \<open>A\<close>
  is \<open>A\<close> intersected with what \<open>restricted_cell\<close> returns without a cell, under the
  same provider and parsers; where the call without a cell raises, the call with \<open>A\<close>
  raises the same error.
\<close>

theorem restricted_cell_intersection:
  "restricted_cell env self identity cube (Some A) =
     (case restricted_cell env self identity cube None of
        Inl e \<Rightarrow> Inl e
      | Inr r \<Rightarrow> Inr (cell_and A r))"
  by (simp add: restricted_cell_def Let_def split: sum.splits)

theorem restricted_cell_intersection_witness:
  "restricted_cell (example_env (Inr wildcard_rights)) (example_authorizer True) ''token''
     sales_cube (Some \<lparr>cell_cube = sales_cube, cell_cuts = [year_cut]\<rparr>)
   = Inr (cell_and \<lparr>cell_cube = sales_cube, cell_cuts = [year_cut]\<rparr>
                   \<lparr>cell_cube = sales_cube, cell_cuts = [region_cut]\<rparr>)
   \<and> restricted_cell (example_env (Inl TransportError)) (example_authorizer True) ''token''
        sales_cube (Some \<lparr>cell_cube = sales_cube, cell_cuts = [year_cut]\<rparr>)
      = Inl TransportError"
proof -
  have b: "restricted_cell (example_env (Inr wildcard_rights)) (example_authorizer True)
             ''token'' sales_cube None
           = Inr \<lparr>cell_cube = sales_cube, cell_cuts = [region_cut]\<rparr>"
    by (simp add: run_defs wildcard_rights_def sales_cube_def year_cut_def region_cut_def)
  have c: "restricted_cell (example_env (Inl TransportError)) (example_authorizer True)
             ''token'' sales_cube None = Inl TransportError"
    by (simp add: restricted_cell_def rightRequest_def example_env_def Let_def)
  show ?thesis
    using restricted_cell_intersection[of "example_env (Inr wildcard_rights)"
        "example_authorizer True" "''token''" sales_cube
        "\<lparr>cell_cube = sales_cube, cell_cuts = [year_cut]\<rparr>"]
      restricted_cell_intersection[of "example_env (Inl TransportError)"
        "example_authorizer True" "''token''" sales_cube
        "\<lparr>cell_cube = sales_cube, cell_cuts = [year_cut]\<rparr>"]
    by (simp add: b c)
qed

section \<open>Splitting the permission cuts\<close>

lemma not_in_filter:
  "filter (\<lambda>c. c \<in> set xs \<longrightarrow> \<not> P c) xs = filter (\<lambda>c. \<not> P c) xs"
  by (rule filter_cong) auto

lemma extract_Some:
  "extract_permissions_from_cell (Some cell) =
     (if filter is_permission_cut (cell_cuts cell) = [] then (Some cell, None)
      else (Some (cell\<lparr>cell_cuts := filter (\<lambda>c. \<not> is_permission_cut c) (cell_cuts cell)\<rparr>),
            Some \<lparr>cell_cube = cell_cube cell,
                  cell_cuts = filter is_permission_cut (cell_cuts cell)\<rparr>))"
  by (cases cell)
     (simp add: extract_permissions_from_cell_def Let_def Cell_init_def not_in_filter)

text \<open>
  C7. For every cell, \<open>extract_permissions_from_cell\<close> returns a data cell and a
  permission cell (or none) whose cuts, as sets, partition the cuts of the input: their
  union is the input's cuts and they share no cut. When no cut's dimension carries the
  type tag \<^verbatim>\<open>Permission\<close>, the data cell is the input cell and there is no permission
  cell.
\<close>

theorem extract_permissions_partition:
  "\<exists>d p. extract_permissions_from_cell (Some cell) = (Some d, p) \<and>
     set (cell_cuts d) \<union> (case p of None \<Rightarrow> {} | Some pc \<Rightarrow> set (cell_cuts pc))
       = set (cell_cuts cell) \<and>
     set (cell_cuts d) \<inter> (case p of None \<Rightarrow> {} | Some pc \<Rightarrow> set (cell_cuts pc)) = {} \<and>
     ((\<forall>c \<in> set (cell_cuts cell). \<not> is_permission_cut c) \<longrightarrow> d = cell \<and> p = None)"
proof (cases "filter is_permission_cut (cell_cuts cell) = []")
  case True
  then show ?thesis by (simp add: extract_Some)
next
  case False
  then have "\<not> (\<forall>c \<in> set (cell_cuts cell). \<not> is_permission_cut c)"
    by (simp add: filter_empty_conv)
  with False show ?thesis by (auto simp: extract_Some)
qed

theorem extract_permissions_partition_witness:
  "extract_permissions_from_cell
     (Some \<lparr>cell_cube = sales_cube, cell_cuts = [year_cut, tenant_cut, region_cut]\<rparr>)
   = (Some \<lparr>cell_cube = sales_cube, cell_cuts = [year_cut, region_cut]\<rparr>,
      Some \<lparr>cell_cube = sales_cube, cell_cuts = [tenant_cut]\<rparr>)
   \<and> set [year_cut, region_cut] \<union> set [tenant_cut] = set [year_cut, tenant_cut, region_cut]
   \<and> set [year_cut, region_cut] \<inter> set [tenant_cut] = {}
   \<and> \<not> is_permission_cut year_cut \<and> \<not> is_permission_cut region_cut
   \<and> extract_permissions_from_cell
       (Some \<lparr>cell_cube = sales_cube, cell_cuts = [year_cut, region_cut]\<rparr>)
     = (Some \<lparr>cell_cube = sales_cube, cell_cuts = [year_cut, region_cut]\<rparr>, None)"
  using extract_permissions_partition
      [of "\<lparr>cell_cube = sales_cube, cell_cuts = [year_cut, tenant_cut, region_cut]\<rparr>"]
    extract_permissions_partition
      [of "\<lparr>cell_cube = sales_cube, cell_cuts = [year_cut, region_cut]\<rparr>"]
  by (simp add: extract_Some is_permission_cut_def year_cut_def tenant_cut_def region_cut_def)

section \<open>Ordering a statement\<close>

text \<open>
  The natural-order loop never reaches its assignment: it fails on the first selected
  column that has a natural order, and otherwise leaves the ordering as it was.
\<close>

lemma natural_loop_result:
  "natural_loop columns natural_order final_order =
     (if \<exists>nm \<in> fst ` set columns. nm \<in> dom natural_order
      then Inl (NameError ''order_by'') else Inr final_order)"
  by (induction columns natural_order final_order rule: natural_loop.induct)
     (auto simp: natural_test_def)

text \<open>
  C9. The claim is that a selected column with a declared natural order, not ordered
  explicitly, gets its natural ordering term appended. The code stops instead: for a
  statement selecting \<^verbatim>\<open>year\<close>, no explicit order and the natural order
  \<^verbatim>\<open>{"year": "asc"}\<close>, \<open>order_query\<close> raises \<^verbatim>\<open>NameError\<close> on \<^verbatim>\<open>order_by\<close> and
  returns no statement.
\<close>

theorem natural_order_name_error:
  "order_query ''__within_split__'' \<lparr>stmt_columns = [Column ''year''], stmt_order_by = []\<rparr>
     None (Some (Map.empty(''year'' \<mapsto> ''asc''))) (Some [''year''])
   = Inl (NameError ''order_by'')"
  by (simp add: order_query_def od_of_pairs_def od_set_def column_key_def Let_def
        natural_test_def)

text \<open>
  Every direction that is not empty and starts with neither \<^verbatim>\<open>asc\<close> nor \<^verbatim>\<open>desc\<close>
  ends in the last branch of \<open>order_column\<close>, and the error of the first explicit
  order term leaves \<open>order_query\<close> as it is.
\<close>

lemma order_column_last_branch:
  assumes "d \<noteq> []" and "\<not> startswith (lower d) ''asc''" and "\<not> startswith (lower d) ''desc''"
  shows "order_column column (Some d) = Inl (NameError ''ArgumentError'')"
  using assms by (simp add: order_column_def)

lemma explicit_loop_first_error:
  assumes "map_of columns attribute = Some c" and "order_column c direction = Inl e"
  shows "explicit_loop columns ((attribute, direction) # rest) final_order = Inl e"
  using assms by simp

text \<open>
  C10. The claim is that an unknown direction raises \<^verbatim>\<open>ArgumentError\<close>. The code
  raises, and no statement is returned, but the error is a \<^verbatim>\<open>NameError\<close> on the name
  \<^verbatim>\<open>ArgumentError\<close>, both from \<open>order_column\<close> and through \<open>order_query\<close>.
\<close>

theorem order_column_unknown_direction:
  "order_column (Column ''amount'') (Some ''up'') = Inl (NameError ''ArgumentError'') \<and>
   order_query ''__within_split__'' \<lparr>stmt_columns = [Column ''amount''], stmt_order_by = []\<rparr>
     (Some [(''amount'', Some ''up'')]) None (Some [''amount''])
   = Inl (NameError ''ArgumentError'')"
  by (simp add: order_column_def lower_def lower_char_def startswith_def order_query_def
        od_of_pairs_def od_set_def column_key_def Let_def)

end
